theory Spec2Isabelle
  imports Main
begin

section \<open>Data model of the multiplayer session layer\<close>

text \<open>
  The types follow the interfaces \<open>Room\<close>, \<open>Player\<close> and \<open>GameState\<close> of
  \<open>MultiplayerContext\<close>. The field \<open>id\<close> exists in all three interfaces and is
  written \<open>room_ident\<close>, \<open>row_id\<close> and \<open>gs_id\<close> here; \<open>room_id\<close> of a game state is
  \<open>gs_room_id\<close>, and \<open>round\<close> is \<open>round_no\<close>. JavaScript numbers that hold counts are
  \<open>int\<close>: nothing in the code keeps them non-negative.
\<close>

datatype status = Waiting | Playing | Finished

record room =
  room_ident :: string
  room_code :: string
  host_id :: string
  game_mode :: string
  status :: status
  max_players :: int
  created_at :: string

record profile =
  username :: string
  avatar_url :: "string option"

text \<open>A row of the table \<open>room_players\<close>, as the change feed and the store carry it.\<close>

record player_row =
  row_id :: string
  room_id :: string
  player_id :: string
  score :: int
  lives :: int
  is_ready :: bool
  joined_at :: string

text \<open>The local \<open>Player\<close>: the row together with the optional display profile.\<close>

record player = player_row +
  profile :: "profile option"

text \<open>
  The question payload is typed \<open>any\<close> in the source; both callers build the object
  \<open>{type, country, options}\<close>, which is what the record holds. An absent
  \<open>nextQuestion\<close> is \<open>None\<close>; an object is always truthy.
\<close>

record question =
  qtype :: string
  country :: string
  options :: "string list"

record game_state =
  gs_id :: string
  gs_room_id :: string
  current_turn :: string
  current_question :: question
  round_no :: int
  time_left :: int
  updated_at :: string

text \<open>A row of the table \<open>profiles\<close>; both columns may be null.\<close>

record db_profile =
  db_username :: "string option"
  db_avatar_url :: "string option"

subsection \<open>The external store\<close>

text \<open>
  Every mutation the controller sends to the store is one \<open>request\<close>. The filters are
  the \<open>.eq\<close> arguments of the source, in their order.
\<close>

datatype request =
    Rooms_insert room
  | Rooms_update_status string status
  | Players_insert player_row
  | Players_update_ready string string bool
  | Players_update_score string string int
  | Players_update_lives string string int
  | Players_delete string string
  | Game_insert game_state
  | Game_update string string question int int

text \<open>
  The store holds the tables and, in \<open>journal\<close>, every mutation request it has received,
  in order, whether it applied the request or rejected it.
\<close>

record store =
  rooms :: "room list"
  room_players :: "player_row list"
  game_state_rows :: "game_state list"
  profiles :: "(string \<times> db_profile) list"
  journal :: "request list"

fun apply_request :: "request \<Rightarrow> store \<Rightarrow> store" where
  "apply_request (Rooms_insert r) s = s\<lparr>rooms := rooms s @ [r]\<rparr>"
| "apply_request (Rooms_update_status rid st) s =
     s\<lparr>rooms := map (\<lambda>r. if room_ident r = rid then r\<lparr>status := st\<rparr> else r) (rooms s)\<rparr>"
| "apply_request (Players_insert p) s = s\<lparr>room_players := room_players s @ [p]\<rparr>"
| "apply_request (Players_update_ready rid uid b) s =
     s\<lparr>room_players := map (\<lambda>p. if room_id p = rid \<and> player_id p = uid
                                   then p\<lparr>is_ready := b\<rparr> else p) (room_players s)\<rparr>"
| "apply_request (Players_update_score rid uid n) s =
     s\<lparr>room_players := map (\<lambda>p. if room_id p = rid \<and> player_id p = uid
                                   then p\<lparr>score := n\<rparr> else p) (room_players s)\<rparr>"
| "apply_request (Players_update_lives rid uid n) s =
     s\<lparr>room_players := map (\<lambda>p. if room_id p = rid \<and> player_id p = uid
                                   then p\<lparr>lives := n\<rparr> else p) (room_players s)\<rparr>"
| "apply_request (Players_delete rid uid) s =
     s\<lparr>room_players := filter (\<lambda>p. \<not> (room_id p = rid \<and> player_id p = uid)) (room_players s)\<rparr>"
| "apply_request (Game_insert g) s = s\<lparr>game_state_rows := game_state_rows s @ [g]\<rparr>"
| "apply_request (Game_update rid turn q rnd t) s =
     s\<lparr>game_state_rows := map (\<lambda>g. if gs_room_id g = rid
                 then g\<lparr>current_turn := turn, current_question := q, round_no := rnd, time_left := t\<rparr>
                 else g) (game_state_rows s)\<rparr>"

definition send :: "request \<Rightarrow> store \<Rightarrow> store" where
  "send rq s = (apply_request rq s)\<lparr>journal := journal s @ [rq]\<rparr>"

definition rejected :: "request \<Rightarrow> store \<Rightarrow> store" where
  "rejected rq s = s\<lparr>journal := journal s @ [rq]\<rparr>"

text \<open>
  \<open>.single()\<close> and \<open>.maybeSingle()\<close> give the row when exactly one row matches and
  \<open>null\<close> data otherwise (they differ only in the error they report for no row).
\<close>

fun single :: "'a list \<Rightarrow> 'a option" where
  "single [x] = Some x"
| "single xs = None"

definition maybeSingle :: "'a list \<Rightarrow> 'a option" where
  "maybeSingle xs = single xs"

definition count_players :: "string \<Rightarrow> store \<Rightarrow> int" where
  "count_players rid s = int (length (filter (\<lambda>p. room_id p = rid) (room_players s)))"

text \<open>
  What the store decides and the code only receives: generated identifiers, the clock, the
  text \<open>Math.random().toString(36)\<close>, and the error (if any) of each call whose error the
  code inspects, under the name the source gives it. The two reads of \<open>joinRoom\<close> whose
  error the source discards (it destructures only \<open>data\<close> and \<open>count\<close>, which are
  \<open>null\<close> when the read fails) have the fields \<open>lookupError\<close> and \<open>countError\<close>.
\<close>

record backend =
  random36 :: string
  new_room_id :: string
  new_row_id :: string
  new_game_id :: string
  now :: string
  roomError :: "string option"
  playerError :: "string option"
  fetchError :: "string option"
  joinError :: "string option"
  gameError :: "string option"
  rpcError :: "string option"
  lookupError :: "string option"
  countError :: "string option"

text \<open>The column defaults of the tables, which the schema (not the client) fixes.\<close>

record schema =
  default_status :: status
  default_score :: int
  default_lives :: int

subsection \<open>The provider's local state\<close>

record client =
  user :: "string option"
  room :: "room option"
  players :: "player list"
  gameState :: "game_state option"
  loading :: bool
  error :: "string option"
  roomChannel :: "string option"
  gameChannel :: "string option"

section \<open>JavaScript helpers\<close>

text \<open>\<open>Array.prototype.findIndex\<close>: the first index that satisfies the test, else \<open>-1\<close>.\<close>

fun findIndex :: "('a \<Rightarrow> bool) \<Rightarrow> 'a list \<Rightarrow> int" where
  "findIndex P [] = - 1"
| "findIndex P (x # xs) =
     (if P x then 0 else (let i = findIndex P xs in if i < 0 then - 1 else i + 1))"

text \<open>The remainder operator \<open>%\<close> on integers: the sign follows the dividend.\<close>

definition js_rem :: "int \<Rightarrow> int \<Rightarrow> int" where
  "js_rem a b = sgn a * (\<bar>a\<bar> mod \<bar>b\<bar>)"

text \<open>Array indexing: \<open>undefined\<close> outside the array.\<close>

definition index_at :: "'a list \<Rightarrow> int \<Rightarrow> 'a option" where
  "index_at xs i = (if 0 \<le> i \<and> i < int (length xs) then Some (xs ! nat i) else None)"

text \<open>\<open>String.prototype.substring\<close> for \<open>start \<le> end\<close>, and \<open>toUpperCase\<close> on ASCII.\<close>

definition substring :: "string \<Rightarrow> nat \<Rightarrow> nat \<Rightarrow> string" where
  "substring s a b = take (b - a) (drop a s)"

definition upper_char :: "char \<Rightarrow> char" where
  "upper_char c = (let n = (of_char c :: nat)
                   in if 97 \<le> n \<and> n \<le> 122 then char_of (n - 32) else c)"

definition toUpperCase :: "string \<Rightarrow> string" where
  "toUpperCase s = map upper_char s"

section \<open>The session controller\<close>

text \<open>
  Each operation of \<open>MultiplayerProvider\<close> takes the local state and the store and
  returns both, with the value the source returns where it returns one. The source holds
  two revisions of the provider; the definitions follow the later one (with the change-feed
  reconciliation, the ready update on rejoin and the checked writes of \<open>startGame\<close>).
  The calls to \<open>addLog\<close> only append to a diagnostic list that nothing reads back, and
  are left out. An operation is one step: the store does not change between its awaits.
\<close>

definition or_default :: "string option \<Rightarrow> string \<Rightarrow> string" where
  "or_default v d = (case v of None \<Rightarrow> d | Some x \<Rightarrow> if x = [] then d else x)"

text \<open>A flat row of the server-side call \<open>get_room_players\<close>.\<close>

record rpc_row = player_row +
  rpc_username :: "string option"
  rpc_avatar_url :: "string option"

text \<open>
  Modelled from the spec: the server-side aggregation \<open>get_room_players(room_id)\<close>, whose
  SQL is not part of the client; it returns the roster rows of the room as flat rows with
  the participant's \<open>username\<close> and \<open>avatar_url\<close>.
\<close>

definition get_room_players :: "string \<Rightarrow> store \<Rightarrow> rpc_row list" where
  "get_room_players rid s =
     map (\<lambda>p. \<lparr>row_id = row_id p, room_id = room_id p, player_id = player_id p,
                score = score p, lives = lives p, is_ready = is_ready p,
                joined_at = joined_at p,
                rpc_username = (case map_of (profiles s) (player_id p) of
                                  None \<Rightarrow> None | Some pr \<Rightarrow> db_username pr),
                rpc_avatar_url = (case map_of (profiles s) (player_id p) of
                                  None \<Rightarrow> None | Some pr \<Rightarrow> db_avatar_url pr)\<rparr>)
         (filter (\<lambda>p. room_id p = rid) (room_players s))"

definition fetchPlayers :: "backend \<Rightarrow> string \<Rightarrow> client \<Rightarrow> store \<Rightarrow> client" where
  "fetchPlayers b roomId c s =
     (case rpcError b of
        Some e \<Rightarrow> c
      | None \<Rightarrow>
          c\<lparr>players :=
              map (\<lambda>p. \<lparr>row_id = row_id p, room_id = room_id p, player_id = player_id p,
                         score = score p, lives = lives p, is_ready = is_ready p,
                         joined_at = joined_at p,
                         profile = Some \<lparr>username = or_default (rpc_username p) ''Sin Nombre'',
                                         avatar_url = rpc_avatar_url p\<rparr>\<rparr>)
                  (get_room_players roomId s)\<rparr>)"

definition subscribe :: "string \<Rightarrow> client \<Rightarrow> client" where
  "subscribe roomId c = c\<lparr>roomChannel := Some roomId, gameChannel := Some roomId\<rparr>"

definition isHost :: "client \<Rightarrow> bool" where
  "isHost c = (map_option host_id (room c) = user c)"

definition createRoom ::
  "schema \<Rightarrow> backend \<Rightarrow> string \<Rightarrow> client \<Rightarrow> store \<Rightarrow> string option \<times> client \<times> store" where
  "createRoom sch b gameMode c s =
     (case user c of
        None \<Rightarrow> (None, c, s)
      | Some uid \<Rightarrow>
          (let c0 = c\<lparr>loading := True, error := None\<rparr>;
               roomCode = toUpperCase (substring (random36 b) 2 8);
               newRoom = \<lparr>room_ident = new_room_id b, room_code = roomCode, host_id = uid,
                          game_mode = gameMode, status = default_status sch,
                          max_players = 6, created_at = now b\<rparr>;
               row = \<lparr>row_id = new_row_id b, room_id = room_ident newRoom, player_id = uid,
                      score = default_score sch, lives = default_lives sch,
                      is_ready = True, joined_at = now b\<rparr>
           in case roomError b of
                Some e \<Rightarrow>
                  (None, c0\<lparr>error := Some e, loading := False\<rparr>, rejected (Rooms_insert newRoom) s)
              | None \<Rightarrow>
                  (let s1 = send (Rooms_insert newRoom) s
                   in case playerError b of
                        Some e \<Rightarrow>
                          (None, c0\<lparr>error := Some e, loading := False\<rparr>,
                           rejected (Players_insert row) s1)
                      | None \<Rightarrow>
                          (let s2 = send (Players_insert row) s1;
                               c1 = c0\<lparr>room := Some newRoom\<rparr>;
                               c2 = fetchPlayers b (room_ident newRoom) c1 s2;
                               c3 = subscribe (room_ident newRoom) c2
                           in (Some roomCode, c3\<lparr>loading := False\<rparr>, s2)))))"

definition capacity :: "room \<Rightarrow> int" where
  "capacity r = (if max_players r = 0 then 6 else max_players r)"

text \<open>
  The test \<open>count && count >= limit\<close>: a \<open>null\<close> count and the count 0 are falsy.
\<close>

definition truthy_and_at_least :: "int option \<Rightarrow> int \<Rightarrow> bool" where
  "truthy_and_at_least count limit =
     (case count of None \<Rightarrow> False | Some n \<Rightarrow> n \<noteq> 0 \<and> n \<ge> limit)"

text \<open>
  In \<open>joinRoom\<close> the room lookup and the insert have their errors checked; the lookup of
  the caller's entry and the roster count do not: when either read fails its result is
  \<open>null\<close> and the code goes on as if there were no entry, or no count. The reads and
  the write are separate awaits in the source; here they see the same store, so a call is
  one of a sequence and no other client's write falls between them.
\<close>

definition joinRoom ::
  "schema \<Rightarrow> backend \<Rightarrow> string \<Rightarrow> client \<Rightarrow> store \<Rightarrow> bool \<times> client \<times> store" where
  "joinRoom sch b code c s =
     (case user c of
        None \<Rightarrow> (False, c, s)
      | Some uid \<Rightarrow>
          (let c0 = c\<lparr>loading := True, error := None\<rparr>
           in case (if fetchError b = None
                    then single (filter (\<lambda>r. room_code r = code) (rooms s)) else None) of
                None \<Rightarrow> (False, c0\<lparr>error := Some ''Room not found'', loading := False\<rparr>, s)
              | Some foundRoom \<Rightarrow>
                  (let entered = (\<lambda>s'.
                         (let c1 = c0\<lparr>room := Some foundRoom\<rparr>;
                              c2 = fetchPlayers b (room_ident foundRoom) c1 s';
                              c3 = subscribe (room_ident foundRoom) c2
                          in (True, c3\<lparr>loading := False\<rparr>, s')))
                   in case (if lookupError b = None
                            then maybeSingle (filter (\<lambda>p. room_id p = room_ident foundRoom
                                                           \<and> player_id p = uid) (room_players s))
                            else None) of
                        Some existingPlayer \<Rightarrow>
                          entered (send (Players_update_ready (room_ident foundRoom) uid True) s)
                      | None \<Rightarrow>
                          (let count = (if countError b = None
                                        then Some (count_players (room_ident foundRoom) s)
                                        else None);
                               row = \<lparr>row_id = new_row_id b, room_id = room_ident foundRoom,
                                      player_id = uid, score = default_score sch,
                                      lives = default_lives sch, is_ready = True,
                                      joined_at = now b\<rparr>
                           in if truthy_and_at_least count (capacity foundRoom)
                              then (False, c0\<lparr>error := Some ''Room is full'', loading := False\<rparr>, s)
                              else case joinError b of
                                     Some e \<Rightarrow>
                                       (False, c0\<lparr>error := Some e, loading := False\<rparr>,
                                        rejected (Players_insert row) s)
                                   | None \<Rightarrow> entered (send (Players_insert row) s)))))"

definition leaveRoom :: "client \<Rightarrow> store \<Rightarrow> client \<times> store" where
  "leaveRoom c s =
     (case (user c, room c) of
        (Some uid, Some r) \<Rightarrow>
          (c\<lparr>room := None, players := [], gameState := None,
             roomChannel := None, gameChannel := None\<rparr>,
           send (Players_delete (room_ident r) uid) s)
      | _ \<Rightarrow> (c, s))"

definition toggleReady :: "client \<Rightarrow> store \<Rightarrow> client \<times> store" where
  "toggleReady c s =
     (case (user c, room c) of
        (Some uid, Some r) \<Rightarrow>
          (case find (\<lambda>p. player_id p = uid) (players c) of
             None \<Rightarrow> (c, s)
           | Some me \<Rightarrow> (c, send (Players_update_ready (room_ident r) uid (\<not> is_ready me)) s))
      | _ \<Rightarrow> (c, s))"

definition startGame :: "backend \<Rightarrow> question \<Rightarrow> client \<Rightarrow> store \<Rightarrow> client \<times> store" where
  "startGame b initialQuestion c s =
     (case (user c, room c) of
        (Some uid, Some r) \<Rightarrow>
          if host_id r \<noteq> uid then (c, s)
          else if \<not> list_all is_ready (players c)
          then (c\<lparr>error := Some ''Not all players are ready''\<rparr>, s)
          else
            (let g = \<lparr>gs_id = new_game_id b, gs_room_id = room_ident r,
                      current_turn = host_id r, current_question = initialQuestion,
                      round_no = 1, time_left = 30, updated_at = now b\<rparr>
             in case roomError b of
                  Some e \<Rightarrow>
                    (c\<lparr>error := Some e\<rparr>, rejected (Rooms_update_status (room_ident r) Playing) s)
                | None \<Rightarrow>
                    (let s1 = send (Rooms_update_status (room_ident r) Playing) s
                     in case gameError b of
                          Some e \<Rightarrow> (c\<lparr>error := Some e\<rparr>, rejected (Game_insert g) s1)
                        | None \<Rightarrow> (c, send (Game_insert g) s1)))
      | _ \<Rightarrow> (c, s))"

text \<open>
  In \<open>submitAnswer\<close> the read \<open>players[nextIndex].player_id\<close> throws when the entry is
  \<open>undefined\<close>; the turn update is then never sent.
\<close>

definition submitAnswer :: "bool \<Rightarrow> question option \<Rightarrow> client \<Rightarrow> store \<Rightarrow> client \<times> store" where
  "submitAnswer isCorrect nextQuestion c s =
     (case (user c, room c, gameState c) of
        (Some uid, Some r, Some gs) \<Rightarrow>
          (case find (\<lambda>p. player_id p = uid) (players c) of
             None \<Rightarrow> (c, s)
           | Some me \<Rightarrow>
               (let s1 = (if isCorrect
                          then send (Players_update_score (room_ident r) uid (score me + 1)) s
                          else send (Players_update_lives (room_ident r) uid (lives me - 1)) s)
                in case nextQuestion of
                     None \<Rightarrow> (c, s1)
                   | Some q \<Rightarrow>
                       (let currentIndex = findIndex (\<lambda>p. player_id p = current_turn gs) (players c);
                            nextIndex = js_rem (currentIndex + 1) (int (length (players c)))
                        in case index_at (players c) nextIndex of
                             None \<Rightarrow> (c, s1)
                           | Some nextPlayer \<Rightarrow>
                               (c, send (Game_update (room_ident r) (player_id nextPlayer) q
                                           (round_no gs + (if nextIndex = 0 then 1 else 0)) 30) s1))))
      | _ \<Rightarrow> (c, s))"

text \<open>The body of the "last man standing" effect, run whenever its dependencies change.\<close>

definition lastManStanding :: "client \<Rightarrow> store \<Rightarrow> client \<times> store" where
  "lastManStanding c s =
     (case room c of
        None \<Rightarrow> (c, s)
      | Some r \<Rightarrow>
          if status r = Playing \<and> length (players c) = 1 \<and> \<not> loading c
          then (if isHost c then (c, send (Rooms_update_status (room_ident r) Finished) s)
                else (c, s))
          else (c, s))"

subsection \<open>Reconciliation from the change feed\<close>

text \<open>
  The payload of a \<open>room_players\<close> change: the new row (with the \<open>created_at\<close> the
  handler looks for) on insert, the new row on update, the old row's \<open>id\<close> on delete.
\<close>

datatype payload =
    INSERT player_row "string option"
  | UPDATE player_row
  | DELETE string

text \<open>
  The \<open>room_players\<close> callback of \<open>subscribeToRoom\<close>. Only the insert branch reads
  the store (the profile lookup); it also reads the clock.
\<close>

fun onRoomPlayers :: "string \<Rightarrow> store \<Rightarrow> payload \<Rightarrow> client \<Rightarrow> client" where
  "onRoomPlayers clock s (INSERT new created) c =
     (let prof = map_option snd (single (filter (\<lambda>kv. fst kv = player_id new) (profiles s)))
      in if find (\<lambda>p. row_id p = row_id new) (players c) \<noteq> None then c
         else c\<lparr>players := players c @
                [\<lparr>row_id = row_id new, room_id = room_id new, player_id = player_id new,
                  score = score new, lives = lives new, is_ready = is_ready new,
                  joined_at = or_default created clock,
                  profile = Some \<lparr>username = or_default (case prof of None \<Rightarrow> None
                                                            | Some pr \<Rightarrow> db_username pr) ''Sin Nombre'',
                                  avatar_url = (case prof of None \<Rightarrow> None
                                                | Some pr \<Rightarrow> db_avatar_url pr)\<rparr>\<rparr>]\<rparr>)"
| "onRoomPlayers clock s (UPDATE new) c =
     c\<lparr>players := map (\<lambda>p. if row_id p = row_id new
                            then p\<lparr>score := score new, lives := lives new, is_ready := is_ready new\<rparr>
                            else p) (players c)\<rparr>"
| "onRoomPlayers clock s (DELETE old) c =
     c\<lparr>players := filter (\<lambda>p. row_id p \<noteq> old) (players c)\<rparr>"

subsection \<open>Operations as data\<close>

datatype op =
    CreateRoom string
  | JoinRoom string
  | LeaveRoom
  | ToggleReady
  | StartGame question
  | SubmitAnswer bool "question option"
  | LastManStanding

fun exec :: "schema \<Rightarrow> backend \<Rightarrow> op \<Rightarrow> client \<Rightarrow> store \<Rightarrow> client \<times> store" where
  "exec sch b (CreateRoom gameMode) c s = snd (createRoom sch b gameMode c s)"
| "exec sch b (JoinRoom code) c s = snd (joinRoom sch b code c s)"
| "exec sch b LeaveRoom c s = leaveRoom c s"
| "exec sch b ToggleReady c s = toggleReady c s"
| "exec sch b (StartGame q) c s = startGame b q c s"
| "exec sch b (SubmitAnswer isCorrect nextQuestion) c s = submitAnswer isCorrect nextQuestion c s"
| "exec sch b LastManStanding c s = lastManStanding c s"

text \<open>
  A run of the system: each step is one operation called by some client, in whatever local
  state that client is, with whatever the store answers.
\<close>

fun run :: "schema \<Rightarrow> (client \<times> backend \<times> op) list \<Rightarrow> store \<Rightarrow> store" where
  "run sch [] s = s"
| "run sch (e # es) s = run sch es (snd (exec sch (fst (snd e)) (snd (snd e)) (fst e) s))"

fun join_or_leave :: "op \<Rightarrow> bool" where
  "join_or_leave (JoinRoom code) = True"
| "join_or_leave LeaveRoom = True"
| "join_or_leave other = False"

definition within_capacity :: "store \<Rightarrow> bool" where
  "within_capacity s = (\<forall>r\<in>set (rooms s). count_players (room_ident r) s \<le> capacity r)"

definition entries_of :: "string \<Rightarrow> string \<Rightarrow> store \<Rightarrow> player_row list" where
  "entries_of rid uid s = filter (\<lambda>p. room_id p = rid \<and> player_id p = uid) (room_players s)"

text \<open>The row that \<open>joinRoom\<close> inserts for a newcomer.\<close>

definition join_row :: "schema \<Rightarrow> backend \<Rightarrow> string \<Rightarrow> string \<Rightarrow> player_row" where
  "join_row sch b rid uid = \<lparr>row_id = new_row_id b, room_id = rid, player_id = uid,
       score = default_score sch, lives = default_lives sch, is_ready = True, joined_at = now b\<rparr>"

text \<open>
  A step from \<open>s\<close> to \<open>s'\<close> keeps the lives: every roster row of \<open>s'\<close> has the row id
  and the lives of a row of \<open>s\<close>, or is the row the store has just created with the
  column default.
\<close>

definition keeps_lives :: "schema \<Rightarrow> backend \<Rightarrow> store \<Rightarrow> store \<Rightarrow> bool" where
  "keeps_lives sch b s s' =
     (\<forall>p'\<in>set (room_players s').
        (\<exists>p\<in>set (room_players s). row_id p' = row_id p \<and> lives p' = lives p)
      \<or> (row_id p' = new_row_id b \<and> lives p' = default_lives sch))"

section \<open>A sample session\<close>

definition demo_schema :: schema where
  "demo_schema = \<lparr>default_status = Waiting, default_score = 0, default_lives = 3\<rparr>"

definition demo_backend :: backend where
  "demo_backend = \<lparr>random36 = ''0.4fzyo82mvyr'', new_room_id = ''r1'', new_row_id = ''p1'',
                    new_game_id = ''g1'', now = ''t0'', roomError = None, playerError = None,
                    fetchError = None, joinError = None, gameError = None, rpcError = None,
                    lookupError = None, countError = None\<rparr>"

definition empty_store :: store where
  "empty_store = \<lparr>rooms = [], room_players = [], game_state_rows = [], profiles = [], journal = []\<rparr>"

definition signed_in :: "string \<Rightarrow> client" where
  "signed_in u = \<lparr>user = Some u, room = None, players = [], gameState = None, loading = False,
                  error = None, roomChannel = None, gameChannel = None\<rparr>"

definition demo_question :: question where
  "demo_question = \<lparr>qtype = ''flag'', country = ''FRA'', options = []\<rparr>"

definition demo_room :: room where
  "demo_room = \<lparr>room_ident = ''r1'', room_code = ''4FZYO8'', host_id = ''alice'',
                 game_mode = ''deathmatch'', status = Playing, max_players = 6, created_at = ''t0''\<rparr>"

definition demo_row :: "string \<Rightarrow> string \<Rightarrow> int \<Rightarrow> player_row" where
  "demo_row rowid uid n = \<lparr>row_id = rowid, room_id = ''r1'', player_id = uid, score = 0,
                           lives = n, is_ready = True, joined_at = ''t1''\<rparr>"

definition demo_player :: "string \<Rightarrow> string \<Rightarrow> int \<Rightarrow> player" where
  "demo_player rowid uid n = \<lparr>row_id = rowid, room_id = ''r1'', player_id = uid, score = 0,
                              lives = n, is_ready = True, joined_at = ''t1'',
                              profile = Some \<lparr>username = uid, avatar_url = None\<rparr>\<rparr>"

definition demo_game :: game_state where
  "demo_game = \<lparr>gs_id = ''g1'', gs_room_id = ''r1'', current_turn = ''alice'',
                 current_question = demo_question, round_no = 1, time_left = 12,
                 updated_at = ''t2''\<rparr>"

text \<open>A room in play with the roster alice, bob, carol, seen by the client of \<open>u\<close>.\<close>

definition trio_store :: store where
  "trio_store = \<lparr>rooms = [demo_room],
                  room_players = [demo_row ''p1'' ''alice'' 3, demo_row ''p2'' ''bob'' 0,
                                  demo_row ''p3'' ''carol'' 3],
                  game_state_rows = [demo_game], profiles = [], journal = []\<rparr>"

definition trio_client :: "string \<Rightarrow> client" where
  "trio_client u = \<lparr>user = Some u, room = Some demo_room,
                    players = [demo_player ''p1'' ''alice'' 3, demo_player ''p2'' ''bob'' 0,
                               demo_player ''p3'' ''carol'' 3],
                    gameState = Some demo_game, loading = False, error = None,
                    roomChannel = Some ''r1'', gameChannel = Some ''r1''\<rparr>"

text \<open>A waiting room for two, with alice and bob in it.\<close>

definition duo_room :: room where
  "duo_room = demo_room\<lparr>status := Waiting, max_players := 2\<rparr>"

definition duo_store :: store where
  "duo_store = \<lparr>rooms = [duo_room],
                 room_players = [demo_row ''p1'' ''alice'' 3, demo_row ''p2'' ''bob'' 3],
                 game_state_rows = [],
                 profiles = [(''alice'', \<lparr>db_username = Some ''Alice'', db_avatar_url = None\<rparr>)],
                 journal = []\<rparr>"

text \<open>A waiting room for six with alice alone in it.\<close>

definition lobby_room :: room where
  "lobby_room = demo_room\<lparr>status := Waiting\<rparr>"

definition lobby_store :: store where
  "lobby_store = \<lparr>rooms = [lobby_room], room_players = [demo_row ''p1'' ''alice'' 3],
                   game_state_rows = [], profiles = [], journal = []\<rparr>"

section \<open>Helper facts\<close>

lemma js_rem_mod: "0 \<le> a \<Longrightarrow> 0 < b \<Longrightarrow> js_rem a b = a mod b"
  by (cases "a = 0") (simp_all add: js_rem_def)

lemma findIndex_range: "- 1 \<le> findIndex P xs \<and> findIndex P xs < int (length xs)"
  by (induction xs) (auto simp: Let_def)

lemma findIndex_absent: "(findIndex P xs = - 1) = (\<forall>x\<in>set xs. \<not> P x)"
proof (induction xs)
  case Nil
  show ?case by simp
next
  case (Cons x xs)
  have "- 1 \<le> findIndex P xs" using findIndex_range [of P xs] by simp
  with Cons show ?case by (auto simp: Let_def)
qed

lemma findIndex_first:
  "k < length xs \<Longrightarrow> P (xs ! k) \<Longrightarrow> \<forall>m<k. \<not> P (xs ! m) \<Longrightarrow> findIndex P xs = int k"
proof (induction xs arbitrary: k)
  case Nil
  then show ?case by simp
next
  case (Cons x xs)
  show ?case
  proof (cases k)
    case 0
    with Cons.prems show ?thesis by simp
  next
    case (Suc j)
    from Cons.prems Suc have nx: "\<not> P x" by (metis nth_Cons_0 zero_less_Suc)
    have "\<forall>m<j. \<not> P (xs ! m)"
    proof (intro allI impI)
      fix m assume "m < j"
      then have "Suc m < k" using Suc by simp
      with Cons.prems(3) have "\<not> P ((x # xs) ! Suc m)" by blast
      then show "\<not> P (xs ! m)" by simp
    qed
    with Cons.IH [of j] Cons.prems Suc have "findIndex P xs = int j" by simp
    with nx Suc show ?thesis by (simp add: Let_def)
  qed
qed

lemma find_Some_nonempty: "find P xs = Some x \<Longrightarrow> xs \<noteq> []"
  by (cases xs) simp_all

text \<open>
  The guards of \<open>startGame\<close> that do hold: a caller who is not the host, or a roster with
  an entry that is not ready, leaves the store as it was.
\<close>

lemma startGame_guard:
  assumes "room c = Some r"
    and "user c \<noteq> Some (host_id r) \<or> (\<exists>p\<in>set (players c). \<not> is_ready p)"
  shows "snd (startGame b q c s) = s"
  using assms by (auto simp: startGame_def list_all_iff split: option.splits)

section \<open>Starting a match\<close>

text \<open>
  C1. \<open>startGame\<close> is claimed to fail without any write when the roster is empty. The
  guard is \<open>players.every(p => p.is_ready)\<close>, which is true of the empty roster: a host
  whose roster fetch failed after \<open>createRoom\<close> holds the room and no players, and that
  host's \<open>startGame\<close> sets the room to playing and inserts the turn state.
\<close>

theorem startGame_empty_roster_starts:
  "(let (code, c, s) = createRoom demo_schema (demo_backend\<lparr>rpcError := Some ''timeout''\<rparr>)
                          ''deathmatch'' (signed_in ''alice'') empty_store;
        (c', s') = startGame demo_backend demo_question c s
    in players c = [] \<and> map status (rooms s) = [Waiting] \<and> game_state_rows s = []
     \<and> map status (rooms s') = [Playing]
     \<and> map current_turn (game_state_rows s') = [''alice'']
     \<and> drop 2 (journal s') = [Rooms_update_status ''r1'' Playing,
           Game_insert \<lparr>gs_id = ''g1'', gs_room_id = ''r1'', current_turn = ''alice'',
                        current_question = demo_question, round_no = 1, time_left = 30,
                        updated_at = ''t0''\<rparr>])"
  by (simp add: createRoom_def startGame_def fetchPlayers_def subscribe_def send_def
      demo_schema_def demo_backend_def signed_in_def empty_store_def Let_def)

text \<open>
  C5. When the host starts with every roster entry ready and the store accepts both
  writes, every room with the local room's id is set to playing, and one turn state is
  appended with the host as \<open>current_turn\<close>, round 1, 30 seconds and the given question.
\<close>

theorem startGame_success:
  assumes "user c = Some uid" and "room c = Some r" and "host_id r = uid"
    and "\<forall>p\<in>set (players c). is_ready p"
    and "roomError b = None" and "gameError b = None"
  shows "(let (c', s') = startGame b q c s
          in rooms s' = map (\<lambda>x. if room_ident x = room_ident r then x\<lparr>status := Playing\<rparr> else x)
                            (rooms s)
           \<and> (\<forall>x\<in>set (rooms s'). room_ident x = room_ident r \<longrightarrow> status x = Playing)
           \<and> game_state_rows s' = game_state_rows s @
                [\<lparr>gs_id = new_game_id b, gs_room_id = room_ident r, current_turn = uid,
                  current_question = q, round_no = 1, time_left = 30, updated_at = now b\<rparr>]
           \<and> room_players s' = room_players s
           \<and> c' = c)"
  using assms by (auto simp: startGame_def send_def Let_def list_all_iff)

theorem startGame_success_witness:
  "(let c = (trio_client ''alice'')\<lparr>room := Some (demo_room\<lparr>status := Waiting\<rparr>), gameState := None\<rparr>;
        s = trio_store\<lparr>rooms := [demo_room\<lparr>status := Waiting\<rparr>], game_state_rows := []\<rparr>;
        (c', s') = startGame demo_backend demo_question c s
    in user c = Some ''alice'' \<and> host_id (demo_room\<lparr>status := Waiting\<rparr>) = ''alice''
     \<and> map is_ready (players c) = [True, True, True]
     \<and> roomError demo_backend = None \<and> gameError demo_backend = None
     \<and> map status (rooms s') = [Playing]
     \<and> game_state_rows s' =
          [\<lparr>gs_id = ''g1'', gs_room_id = ''r1'', current_turn = ''alice'',
            current_question = demo_question, round_no = 1, time_left = 30, updated_at = ''t0''\<rparr>])"
  using startGame_success [of "(trio_client ''alice'')\<lparr>room := Some (demo_room\<lparr>status := Waiting\<rparr>),
                                 gameState := None\<rparr>"
      "''alice''" "demo_room\<lparr>status := Waiting\<rparr>" demo_backend demo_question
      "trio_store\<lparr>rooms := [demo_room\<lparr>status := Waiting\<rparr>], game_state_rows := []\<rparr>"]
  by (simp add: trio_client_def trio_store_def demo_room_def demo_backend_def demo_player_def
      Let_def split: prod.splits)

section \<open>Last player standing\<close>

text \<open>
  C6. With the room in play and one roster entry, a client whose user is not the room's host
  sends nothing; a client whose journal entry appears is the host's; the host's client (once
  it is not loading) sends exactly the update to finished; and of two clients that hold the
  same room under different identities, at most one sends it.
\<close>

theorem last_standing_host_only:
  assumes "room c = Some r" and "status r = Playing" and "length (players c) = 1"
  shows "(user c \<noteq> Some (host_id r) \<longrightarrow> lastManStanding c s = (c, s))
       \<and> (journal (snd (lastManStanding c s)) \<noteq> journal s \<longrightarrow> user c = Some (host_id r))
       \<and> (user c = Some (host_id r) \<and> \<not> loading c \<longrightarrow>
            lastManStanding c s = (c, send (Rooms_update_status (room_ident r) Finished) s))
       \<and> (room c2 = Some r \<and> user c2 \<noteq> user c \<longrightarrow>
            \<not> (journal (snd (lastManStanding c s)) \<noteq> journal s
               \<and> journal (snd (lastManStanding c2 s2)) \<noteq> journal s2))"
  using assms by (auto simp: lastManStanding_def isHost_def split: option.splits if_splits)

section \<open>Reconciliation of roster updates\<close>

text \<open>
  C8. An update event keeps the roster's length and order; in every entry the row id, room,
  participant, join timestamp and profile stay as they were; the entry whose row id is the
  event's takes the event's score, lives and ready flag, every other entry is untouched;
  nothing else of the local state changes, and the result does not depend on the store or
  the clock (no profile lookup is made).
\<close>

theorem update_event_frame:
  assumes "i < length (players c)"
  shows "(let c' = onRoomPlayers clock s (UPDATE new) c; p = players c ! i; p' = players c' ! i
          in length (players c') = length (players c)
           \<and> row_id p' = row_id p \<and> room_id p' = room_id p \<and> player_id p' = player_id p
           \<and> joined_at p' = joined_at p \<and> profile p' = profile p
           \<and> (row_id p = row_id new \<longrightarrow>
                 score p' = score new \<and> lives p' = lives new \<and> is_ready p' = is_ready new)
           \<and> (row_id p \<noteq> row_id new \<longrightarrow> p' = p)
           \<and> c' = c\<lparr>players := players c'\<rparr>
           \<and> onRoomPlayers clock2 s2 (UPDATE new) c = c')"
  using assms by (simp add: Let_def)

theorem update_event_frame_witness:
  "(let c = trio_client ''alice'';
        new = \<lparr>row_id = ''p2'', room_id = ''r9'', player_id = ''mallory'', score = 5,
               lives = 1, is_ready = False, joined_at = ''t9''\<rparr>;
        p' = players (onRoomPlayers ''t5'' trio_store (UPDATE new) c) ! 1
    in (1::nat) < length (players c) \<and> row_id (players c ! 1) = row_id new
     \<and> score p' = 5 \<and> lives p' = 1 \<and> \<not> is_ready p'
     \<and> row_id p' = ''p2'' \<and> room_id p' = ''r1'' \<and> player_id p' = ''bob''
     \<and> joined_at p' = ''t1'' \<and> profile p' = Some \<lparr>username = ''bob'', avatar_url = None\<rparr>)"
  using update_event_frame [of 1 "trio_client ''alice''" "''t5''" trio_store
      "\<lparr>row_id = ''p2'', room_id = ''r9'', player_id = ''mallory'', score = 5,
        lives = 1, is_ready = False, joined_at = ''t9''\<rparr>" "''t6''" empty_store]
  by (simp add: trio_client_def demo_player_def Let_def)

section \<open>Last player standing: a sample\<close>

theorem last_standing_host_only_witness:
  "(let bob = (trio_client ''bob'')\<lparr>players := [demo_player ''p2'' ''bob'' 0]\<rparr>;
        alice = (trio_client ''alice'')\<lparr>players := [demo_player ''p1'' ''alice'' 3]\<rparr>
    in room bob = Some demo_room \<and> room alice = Some demo_room \<and> status demo_room = Playing
     \<and> length (players bob) = 1 \<and> length (players alice) = 1
     \<and> lastManStanding bob trio_store = (bob, trio_store)
     \<and> journal (snd (lastManStanding alice trio_store)) = [Rooms_update_status ''r1'' Finished]
     \<and> map status (rooms (snd (lastManStanding alice trio_store))) = [Finished])"
  using last_standing_host_only [of "(trio_client ''bob'')\<lparr>players := [demo_player ''p2'' ''bob'' 0]\<rparr>"
      demo_room trio_store "(trio_client ''alice'')\<lparr>players := [demo_player ''p1'' ''alice'' 3]\<rparr>"
      trio_store]
    last_standing_host_only [of "(trio_client ''alice'')\<lparr>players := [demo_player ''p1'' ''alice'' 3]\<rparr>"
      demo_room trio_store "(trio_client ''bob'')\<lparr>players := [demo_player ''p2'' ''bob'' 0]\<rparr>"
      trio_store]
  by (simp add: trio_client_def trio_store_def demo_room_def send_def Let_def)

section \<open>Creating a room\<close>

text \<open>
  The join code is the text of \<open>Math.random().toString(36)\<close> from position 2 up to
  position 8, in upper case: as many characters as the text has after its first two, and
  never more than six.
\<close>

lemma roomCode_length: "length (toUpperCase (substring r 2 8)) = min 6 (length r - 2)"
  by (simp add: toUpperCase_def substring_def)

lemma upper_char_alnum:
  "list_all (\<lambda>ch. upper_char ch \<in> set ''0123456789ABCDEFGHIJKLMNOPQRSTUVWXYZ'')
            ''0123456789abcdefghijklmnopqrstuvwxyz''"
  by code_simp

lemma roomCode_alphanumeric:
  assumes "\<forall>ch\<in>set (drop 2 r). ch \<in> set ''0123456789abcdefghijklmnopqrstuvwxyz''"
  shows "\<forall>ch\<in>set (toUpperCase (substring r 2 8)).
           ch \<in> set ''0123456789ABCDEFGHIJKLMNOPQRSTUVWXYZ''"
proof
  fix ch
  assume "ch \<in> set (toUpperCase (substring r 2 8))"
  then obtain d where d: "d \<in> set (take 6 (drop 2 r))" "ch = upper_char d"
    by (auto simp: toUpperCase_def substring_def)
  from d(1) have "d \<in> set (drop 2 r)" by (rule in_set_takeD)
  with assms have "d \<in> set ''0123456789abcdefghijklmnopqrstuvwxyz''" by blast
  with upper_char_alnum have "upper_char d \<in> set ''0123456789ABCDEFGHIJKLMNOPQRSTUVWXYZ''"
    unfolding list_all_iff by blast
  with d(2) show "ch \<in> set ''0123456789ABCDEFGHIJKLMNOPQRSTUVWXYZ''" by simp
qed

lemma createRoom_sample_code:
  "fst (createRoom demo_schema demo_backend ''deathmatch'' (signed_in ''alice'') empty_store)
     = Some ''4FZYO8''"
  by code_simp

lemma createRoom_persists:
  assumes "user c = Some uid" and "roomError b = None" and "playerError b = None"
  shows "(let (code, c', s') = createRoom sch b gameMode c s
          in code = Some (toUpperCase (substring (random36 b) 2 8))
           \<and> rooms s' = rooms s @
                [\<lparr>room_ident = new_room_id b,
                  room_code = toUpperCase (substring (random36 b) 2 8), host_id = uid,
                  game_mode = gameMode, status = default_status sch, max_players = 6,
                  created_at = now b\<rparr>]
           \<and> room_players s' = room_players s @
                [\<lparr>row_id = new_row_id b, room_id = new_room_id b, player_id = uid,
                  score = default_score sch, lives = default_lives sch, is_ready = True,
                  joined_at = now b\<rparr>])"
  using assms by (simp add: createRoom_def send_def Let_def)

text \<open>
  C7. The join code is claimed to have exactly six characters. \<open>Math.random()\<close> may
  return \<open>0.5\<close>, whose text in base 36 is \<open>0.i\<close>; the room is then created under
  the one-character code \<open>I\<close>.
\<close>

theorem createRoom_short_code:
  "(let (code, c, s) = createRoom demo_schema (demo_backend\<lparr>random36 := ''0.i''\<rparr>)
                          ''deathmatch'' (signed_in ''alice'') empty_store
    in code = Some ''I'' \<and> map room_code (rooms s) = [''I''] \<and> length ''I'' \<noteq> (6::nat)
     \<and> map status (rooms s) = [Waiting] \<and> map is_ready (room_players s) = [True])"
  by code_simp

section \<open>Answering and turn rotation\<close>

lemma next_index_bounds:
  assumes "xs \<noteq> []"
  shows "js_rem (findIndex P xs + 1) (int (length xs)) = (findIndex P xs + 1) mod int (length xs)"
    and "0 \<le> (findIndex P xs + 1) mod int (length xs)"
    and "(findIndex P xs + 1) mod int (length xs) < int (length xs)"
proof -
  have n: "0 < int (length xs)" using assms by simp
  have i: "0 \<le> findIndex P xs + 1" using findIndex_range [of P xs] by simp
  show "js_rem (findIndex P xs + 1) (int (length xs)) = (findIndex P xs + 1) mod int (length xs)"
    using i n by (rule js_rem_mod)
  show "0 \<le> (findIndex P xs + 1) mod int (length xs)" using n by simp
  show "(findIndex P xs + 1) mod int (length xs) < int (length xs)" using n by simp
qed

lemma submitAnswer_next:
  assumes "user c = Some uid" and "room c = Some r" and "gameState c = Some gs"
    and "find (\<lambda>p. player_id p = uid) (players c) = Some me"
  shows "submitAnswer isCorrect (Some q) c s =
     (let j = (findIndex (\<lambda>p. player_id p = current_turn gs) (players c) + 1) mod int (length (players c))
      in (c, send (Game_update (room_ident r) (player_id (players c ! nat j)) q
                    (round_no gs + (if j = 0 then 1 else 0)) 30)
               (if isCorrect then send (Players_update_score (room_ident r) uid (score me + 1)) s
                else send (Players_update_lives (room_ident r) uid (lives me - 1)) s)))"
proof -
  have ne: "players c \<noteq> []" using assms(4) by (rule find_Some_nonempty)
  note nb = next_index_bounds [OF ne, of "\<lambda>p. player_id p = current_turn gs"]
  show ?thesis using assms nb
    by (simp add: submitAnswer_def Let_def index_at_def)
qed

lemma submitAnswer_none:
  assumes "user c = Some uid" and "room c = Some r" and "gameState c = Some gs"
    and "find (\<lambda>p. player_id p = uid) (players c) = Some me"
  shows "submitAnswer isCorrect None c s =
      (c, if isCorrect then send (Players_update_score (room_ident r) uid (score me + 1)) s
                else send (Players_update_lives (room_ident r) uid (lives me - 1)) s)"
  using assms by (simp add: submitAnswer_def Let_def)

text \<open>
  C2. For a signed-in caller who holds the room and the turn state and is in the local
  roster: with a next question, the next index \<open>(findIndex + 1) mod length\<close> is within the
  roster (\<open>findIndex\<close> being the position of the first roster entry whose participant is
  \<open>current_turn\<close>), and every turn state of the room gets that entry's participant as
  \<open>current_turn\<close>, the next question, 30 seconds, and the local round plus one exactly
  when the next index is 0; without a next question the turn states are as before and the
  only request sent is the score or lives update.
\<close>

theorem submitAnswer_rotation:
  assumes "user c = Some uid" and "room c = Some r" and "gameState c = Some gs"
    and "find (\<lambda>p. player_id p = uid) (players c) = Some me"
  shows "(let i = findIndex (\<lambda>p. player_id p = current_turn gs) (players c);
              n = int (length (players c));
              j = (i + 1) mod n;
              s' = snd (submitAnswer isCorrect (Some q) c s);
              s0 = snd (submitAnswer isCorrect None c s)
          in 0 \<le> j \<and> j < n
           \<and> (\<forall>k<length (players c).
                 player_id (players c ! k) = current_turn gs
                 \<and> (\<forall>m<k. player_id (players c ! m) \<noteq> current_turn gs) \<longrightarrow> i = int k)
           \<and> game_state_rows s' =
                map (\<lambda>g. if gs_room_id g = room_ident r
                          then g\<lparr>current_turn := player_id (players c ! nat j),
                                 current_question := q,
                                 round_no := (if j = 0 then round_no gs + 1 else round_no gs),
                                 time_left := 30\<rparr>
                          else g) (game_state_rows s)
           \<and> game_state_rows s0 = game_state_rows s
           \<and> journal s0 = journal s @
                [if isCorrect then Players_update_score (room_ident r) uid (score me + 1)
                 else Players_update_lives (room_ident r) uid (lives me - 1)])"
proof -
  have ne: "players c \<noteq> []" using assms(4) by (rule find_Some_nonempty)
  note nb = next_index_bounds [OF ne, of "\<lambda>p. player_id p = current_turn gs"]
  have first: "\<forall>k<length (players c).
                 player_id (players c ! k) = current_turn gs
                 \<and> (\<forall>m<k. player_id (players c ! m) \<noteq> current_turn gs)
                 \<longrightarrow> findIndex (\<lambda>p. player_id p = current_turn gs) (players c) = int k"
    using findIndex_first [of _ "players c" "\<lambda>p. player_id p = current_turn gs"] by blast
  have rows: "game_state_rows (snd (submitAnswer isCorrect (Some q) c s)) =
      map (\<lambda>g. if gs_room_id g = room_ident r
                then g\<lparr>current_turn := player_id (players c !
                         nat ((findIndex (\<lambda>p. player_id p = current_turn gs) (players c) + 1)
                              mod int (length (players c)))),
                       current_question := q,
                       round_no := (if (findIndex (\<lambda>p. player_id p = current_turn gs) (players c) + 1)
                              mod int (length (players c)) = 0 then round_no gs + 1 else round_no gs),
                       time_left := 30\<rparr>
                else g) (game_state_rows s)"
    by (simp add: submitAnswer_next [OF assms] Let_def send_def)
  have none: "game_state_rows (snd (submitAnswer isCorrect None c s)) = game_state_rows s"
    "journal (snd (submitAnswer isCorrect None c s)) = journal s @
                [if isCorrect then Players_update_score (room_ident r) uid (score me + 1)
                 else Players_update_lives (room_ident r) uid (lives me - 1)]"
    by (simp_all add: submitAnswer_none [OF assms] send_def)
  show ?thesis
    unfolding Let_def using nb(2,3) first rows none by blast
qed



theorem submitAnswer_rotation_witness:
  "(let c = trio_client ''alice'';
        q = \<lparr>qtype = ''flag'', country = ''PER'', options = []\<rparr>;
        s1 = snd (submitAnswer True (Some q) c trio_store);
        c3 = (trio_client ''carol'')\<lparr>gameState := Some (demo_game\<lparr>current_turn := ''carol''\<rparr>)\<rparr>;
        s3 = snd (submitAnswer True (Some q) c3 trio_store)
    in user c = Some ''alice'' \<and> room c = Some demo_room \<and> gameState c = Some demo_game
     \<and> find (\<lambda>p. player_id p = ''alice'') (players c) = Some (demo_player ''p1'' ''alice'' 3)
     \<and> find (\<lambda>p. player_id p = ''carol'') (players c3) = Some (demo_player ''p3'' ''carol'' 3)
     \<and> map current_turn (game_state_rows s1) = [''bob'']
     \<and> map round_no (game_state_rows s1) = [1]
     \<and> map time_left (game_state_rows s1) = [30]
     \<and> map current_question (game_state_rows s1) = [q]
     \<and> map current_turn (game_state_rows s3) = [''alice'']
     \<and> map round_no (game_state_rows s3) = [2]
     \<and> game_state_rows (snd (submitAnswer True None c trio_store)) = [demo_game])"
  using submitAnswer_rotation [of "trio_client ''alice''" "''alice''" demo_room demo_game
      "demo_player ''p1'' ''alice'' 3" True "\<lparr>qtype = ''flag'', country = ''PER'', options = []\<rparr>"
      trio_store]
    submitAnswer_rotation [of "(trio_client ''carol'')\<lparr>gameState := Some (demo_game\<lparr>current_turn := ''carol''\<rparr>)\<rparr>"
      "''carol''" demo_room "demo_game\<lparr>current_turn := ''carol''\<rparr>"
      "demo_player ''p3'' ''carol'' 3" True "\<lparr>qtype = ''flag'', country = ''PER'', options = []\<rparr>"
      trio_store]
  by (simp add: trio_client_def trio_store_def demo_room_def demo_game_def demo_player_def
      Let_def)

text \<open>
  C10. If no roster entry is the \<open>current_turn\<close> participant, \<open>findIndex\<close> is \<open>-1\<close>,
  the next index 0 is inside the (non-empty) roster, and every turn state of the room gets
  the first roster entry's participant and the local round plus one.
\<close>

theorem submitAnswer_absent_turn:
  assumes "user c = Some uid" and "room c = Some r" and "gameState c = Some gs"
    and "find (\<lambda>p. player_id p = uid) (players c) = Some me"
    and "\<forall>p\<in>set (players c). player_id p \<noteq> current_turn gs"
  shows "players c \<noteq> []
       \<and> findIndex (\<lambda>p. player_id p = current_turn gs) (players c) = - 1
       \<and> index_at (players c)
            (js_rem (findIndex (\<lambda>p. player_id p = current_turn gs) (players c) + 1)
                    (int (length (players c)))) = Some (hd (players c))
       \<and> game_state_rows (snd (submitAnswer isCorrect (Some q) c s)) =
            map (\<lambda>g. if gs_room_id g = room_ident r
                      then g\<lparr>current_turn := player_id (hd (players c)), current_question := q,
                             round_no := round_no gs + 1, time_left := 30\<rparr>
                      else g) (game_state_rows s)"
proof -
  have ne: "players c \<noteq> []" using assms(4) by (rule find_Some_nonempty)
  have i: "findIndex (\<lambda>p. player_id p = current_turn gs) (players c) = - 1"
    using assms(5) by (simp add: findIndex_absent)
  have hd: "players c ! 0 = hd (players c)" using ne by (simp add: hd_conv_nth)
  have idx: "index_at (players c) (js_rem (- 1 + 1) (int (length (players c)))) = Some (hd (players c))"
    using ne hd by (simp add: index_at_def js_rem_def)
  have rows: "game_state_rows (snd (submitAnswer isCorrect (Some q) c s)) =
            map (\<lambda>g. if gs_room_id g = room_ident r
                      then g\<lparr>current_turn := player_id (hd (players c)), current_question := q,
                             round_no := round_no gs + 1, time_left := 30\<rparr>
                      else g) (game_state_rows s)"
    using hd by (simp add: submitAnswer_next [OF assms(1-4)] i Let_def send_def)
  show ?thesis using ne i idx rows by simp
qed




theorem submitAnswer_absent_turn_witness:
  "(let gs = demo_game\<lparr>current_turn := ''dave'', round_no := 4\<rparr>;
        c = (trio_client ''bob'')\<lparr>gameState := Some gs\<rparr>;
        s' = snd (submitAnswer True (Some demo_question) c trio_store)
    in user c = Some ''bob'' \<and> room c = Some demo_room \<and> gameState c = Some gs
     \<and> find (\<lambda>p. player_id p = ''bob'') (players c) = Some (demo_player ''p2'' ''bob'' 0)
     \<and> map player_id (players c) = [''alice'', ''bob'', ''carol''] \<and> current_turn gs = ''dave''
     \<and> map current_turn (game_state_rows s') = [''alice'']
     \<and> map round_no (game_state_rows s') = [5])"
  using submitAnswer_absent_turn [of "(trio_client ''bob'')\<lparr>gameState :=
        Some (demo_game\<lparr>current_turn := ''dave'', round_no := 4\<rparr>)\<rparr>" "''bob''" demo_room
      "demo_game\<lparr>current_turn := ''dave'', round_no := 4\<rparr>" "demo_player ''p2'' ''bob'' 0"
      True demo_question trio_store]
  by (simp add: trio_client_def trio_store_def demo_room_def demo_game_def demo_player_def
      Let_def)

section \<open>Lives\<close>

lemma keeps_lives_same: "room_players s' = room_players s \<Longrightarrow> keeps_lives sch b s s'"
  by (auto simp: keeps_lives_def)

lemma keeps_lives_map:
  assumes "room_players s' = map f (room_players s)"
    and "\<And>p. row_id (f p) = row_id p \<and> lives (f p) = lives p"
  shows "keeps_lives sch b s s'"
  using assms by (auto simp: keeps_lives_def)

lemma keeps_lives_filter: "room_players s' = filter P (room_players s) \<Longrightarrow> keeps_lives sch b s s'"
  by (auto simp: keeps_lives_def)

lemma keeps_lives_insert:
  "room_players s' = room_players s @ [p] \<Longrightarrow> row_id p = new_row_id b \<Longrightarrow>
   lives p = default_lives sch \<Longrightarrow> keeps_lives sch b s s'"
  by (auto simp: keeps_lives_def)

lemma createRoom_keeps_lives: "keeps_lives sch b s (snd (snd (createRoom sch b gameMode c s)))"
  by (auto simp: createRoom_def send_def rejected_def Let_def split: option.splits
      intro: keeps_lives_same keeps_lives_insert)

lemma joinRoom_keeps_lives: "keeps_lives sch b s (snd (snd (joinRoom sch b code c s)))"
  by (auto simp: joinRoom_def send_def rejected_def Let_def keeps_lives_def split: option.splits)

lemma leaveRoom_keeps_lives: "keeps_lives sch b s (snd (leaveRoom c s))"
  by (auto simp: leaveRoom_def send_def split: option.splits
      intro: keeps_lives_same keeps_lives_filter)

lemma toggleReady_keeps_lives: "keeps_lives sch b s (snd (toggleReady c s))"
  by (auto simp: toggleReady_def send_def keeps_lives_def split: option.splits)

lemma startGame_keeps_lives: "keeps_lives sch b s (snd (startGame b q c s))"
  by (auto simp: startGame_def send_def rejected_def Let_def split: option.splits
      intro: keeps_lives_same)

lemma lastManStanding_keeps_lives: "keeps_lives sch b s (snd (lastManStanding c s))"
  by (auto simp: lastManStanding_def send_def split: option.splits intro: keeps_lives_same)

lemma submitAnswer_correct_keeps_lives: "keeps_lives sch b s (snd (submitAnswer True nq c s))"
  by (auto simp: submitAnswer_def send_def Let_def keeps_lives_def split: option.splits)

lemma exec_keeps_lives:
  assumes "\<forall>nq. o' \<noteq> SubmitAnswer False nq"
  shows "keeps_lives sch b s (snd (exec sch b o' c s))"
proof (cases o')
  case (SubmitAnswer isCorrect nq)
  with assms have "isCorrect" by auto
  with SubmitAnswer show ?thesis by (simp add: submitAnswer_correct_keeps_lives)
qed (simp_all add: createRoom_keeps_lives joinRoom_keeps_lives leaveRoom_keeps_lives
      toggleReady_keeps_lives startGame_keeps_lives lastManStanding_keeps_lives)


text \<open>
  C9. A wrong answer by a caller who is in the local roster (signed in, holding the room
  and the turn state) sets the lives of the caller's rows in that room to the local entry's
  lives minus one, whatever that is: from 0 the rows get \<open>-1\<close>. Every other operation of
  the controller keeps the lives of every row.
\<close>

theorem submitAnswer_wrong_decrements:
  assumes "user c = Some uid" and "room c = Some r" and "gameState c = Some gs"
    and "find (\<lambda>p. player_id p = uid) (players c) = Some me"
  shows "(let s' = snd (submitAnswer False nq c s)
          in room_players s' =
               map (\<lambda>p. if room_id p = room_ident r \<and> player_id p = uid
                         then p\<lparr>lives := lives me - 1\<rparr> else p) (room_players s)
           \<and> (lives me = 0 \<longrightarrow>
                room_players s' =
                  map (\<lambda>p. if room_id p = room_ident r \<and> player_id p = uid
                            then p\<lparr>lives := - 1\<rparr> else p) (room_players s))
           \<and> (\<forall>o'. (\<forall>nq'. o' \<noteq> SubmitAnswer False nq') \<longrightarrow>
                  keeps_lives sch b s2 (snd (exec sch b o' c2 s2))))"
proof -
  have rows: "room_players (snd (submitAnswer False nq c s)) =
               map (\<lambda>p. if room_id p = room_ident r \<and> player_id p = uid
                         then p\<lparr>lives := lives me - 1\<rparr> else p) (room_players s)"
  proof (cases nq)
    case None
    then show ?thesis by (simp add: submitAnswer_none [OF assms] send_def)
  next
    case (Some q)
    then show ?thesis by (simp add: submitAnswer_next [OF assms] send_def Let_def)
  qed
  have zero: "lives me = 0 \<longrightarrow>
                room_players (snd (submitAnswer False nq c s)) =
                  map (\<lambda>p. if room_id p = room_ident r \<and> player_id p = uid
                            then p\<lparr>lives := - 1\<rparr> else p) (room_players s)"
  proof
    assume "lives me = 0"
    then have m: "lives me - 1 = - 1" by simp
    show "room_players (snd (submitAnswer False nq c s)) =
                  map (\<lambda>p. if room_id p = room_ident r \<and> player_id p = uid
                            then p\<lparr>lives := - 1\<rparr> else p) (room_players s)"
      using rows unfolding m .
  qed
  have others: "\<forall>o'. (\<forall>nq'. o' \<noteq> SubmitAnswer False nq') \<longrightarrow>
                  keeps_lives sch b s2 (snd (exec sch b o' c2 s2))"
    by (simp add: exec_keeps_lives)
  from rows zero others show ?thesis unfolding Let_def by (intro conjI)
qed

theorem submitAnswer_wrong_decrements_witness:
  "(let c = trio_client ''bob'';
        s' = snd (submitAnswer False None c trio_store)
    in user c = Some ''bob'' \<and> room c = Some demo_room \<and> gameState c = Some demo_game
     \<and> find (\<lambda>p. player_id p = ''bob'') (players c) = Some (demo_player ''p2'' ''bob'' 0)
     \<and> lives (demo_player ''p2'' ''bob'' 0) = 0
     \<and> map lives (room_players trio_store) = [3, 0, 3]
     \<and> map lives (room_players s') = [3, - 1, 3]
     \<and> map lives (room_players (snd (exec demo_schema demo_backend ToggleReady c s')))
          = [3, - 1, 3])"
  using submitAnswer_wrong_decrements [of "trio_client ''bob''" "''bob''" demo_room demo_game
      "demo_player ''p2'' ''bob'' 0" None trio_store demo_schema demo_backend
      "snd (submitAnswer False None (trio_client ''bob'') trio_store)" "trio_client ''bob''"]
  by (simp add: trio_client_def trio_store_def demo_room_def demo_game_def demo_player_def
      demo_row_def demo_schema_def demo_backend_def submitAnswer_def toggleReady_def send_def
      keeps_lives_def Let_def)

section \<open>Joining and leaving\<close>

lemma single_Some_iff: "(single xs = Some x) = (xs = [x])"
  by (cases xs rule: single.cases) auto

lemma single_None_short: "single xs = None \<Longrightarrow> length xs \<le> 1 \<Longrightarrow> xs = []"
  by (cases xs rule: single.cases) auto

text \<open>
  The outcomes of \<open>joinRoom\<close>: it stops before any write, or it finds the room and then
  marks the caller's entry ready, refuses a full room, or requests the insert.
\<close>

lemma joinRoom_cases:
  assumes "joinRoom sch b code c s = (ok, c', s')"
  shows "(\<not> ok \<and> s' = s \<and> (user c = None \<or> fetchError b \<noteq> None
                             \<or> single (filter (\<lambda>r. room_code r = code) (rooms s)) = None))
       \<or> (\<exists>uid r. user c = Some uid \<and> fetchError b = None
             \<and> filter (\<lambda>r. room_code r = code) (rooms s) = [r]
             \<and> ((\<exists>x. lookupError b = None \<and> entries_of (room_ident r) uid s = [x]
                      \<and> ok \<and> room c' = Some r
                      \<and> s' = send (Players_update_ready (room_ident r) uid True) s)
               \<or> ((lookupError b \<noteq> None \<or> single (entries_of (room_ident r) uid s) = None)
                   \<and> countError b = None
                   \<and> count_players (room_ident r) s \<noteq> 0
                   \<and> capacity r \<le> count_players (room_ident r) s
                   \<and> \<not> ok \<and> error c' = Some ''Room is full'' \<and> s' = s)
               \<or> ((lookupError b \<noteq> None \<or> single (entries_of (room_ident r) uid s) = None)
                   \<and> (countError b \<noteq> None \<or> count_players (room_ident r) s = 0
                        \<or> count_players (room_ident r) s < capacity r)
                   \<and> ((joinError b \<noteq> None \<and> \<not> ok
                         \<and> s' = rejected (Players_insert (join_row sch b (room_ident r) uid)) s)
                     \<or> (joinError b = None \<and> ok \<and> room c' = Some r
                         \<and> s' = send (Players_insert (join_row sch b (room_ident r) uid)) s)))))"
proof (cases "user c")
  case None
  with assms show ?thesis by (simp add: joinRoom_def)
next
  case (Some uid)
  show ?thesis
  proof (cases "fetchError b = None \<and> single (filter (\<lambda>r. room_code r = code) (rooms s)) \<noteq> None")
    case False
    with assms Some show ?thesis by (auto simp: joinRoom_def Let_def split: if_splits)
  next
    case True
    then obtain r where r: "fetchError b = None" "filter (\<lambda>r. room_code r = code) (rooms s) = [r]"
      by (auto simp: single_Some_iff)
    show ?thesis
    proof (cases "lookupError b = None \<and> single (entries_of (room_ident r) uid s) \<noteq> None")
      case True
      then obtain x where "lookupError b = None" "entries_of (room_ident r) uid s = [x]"
        by (auto simp: single_Some_iff)
      with assms \<open>user c = Some uid\<close> r show ?thesis
        by (auto simp: joinRoom_def Let_def maybeSingle_def entries_of_def fetchPlayers_def
            subscribe_def split: option.splits)
    next
      case False
      then have none: "(if lookupError b = None
                 then maybeSingle (filter (\<lambda>p. room_id p = room_ident r \<and> player_id p = uid)
                                          (room_players s))
                 else None) = None"
        by (auto simp: maybeSingle_def entries_of_def)
      from False have l: "lookupError b \<noteq> None \<or> single (entries_of (room_ident r) uid s) = None"
        by auto
      show ?thesis
      proof (cases "countError b")
        case None
        with assms \<open>user c = Some uid\<close> r none l show ?thesis
          by (auto simp: joinRoom_def Let_def truthy_and_at_least_def fetchPlayers_def
              subscribe_def join_row_def split: option.splits if_splits)
      next
        case (Some e)
        with assms \<open>user c = Some uid\<close> r none l show ?thesis
          by (auto simp: joinRoom_def Let_def truthy_and_at_least_def fetchPlayers_def
              subscribe_def join_row_def split: option.splits if_splits)
      qed
    qed
  qed
qed

lemma entries_of_ready:
  "entries_of rid uid (send (Players_update_ready rid' uid' v) s) =
     map (\<lambda>p. if room_id p = rid' \<and> player_id p = uid' then p\<lparr>is_ready := v\<rparr> else p)
         (entries_of rid uid s)"
proof -
  have "filter (\<lambda>p. room_id p = rid \<and> player_id p = uid)
          (map (\<lambda>p. if room_id p = rid' \<and> player_id p = uid' then p\<lparr>is_ready := v\<rparr> else p) xs) =
        map (\<lambda>p. if room_id p = rid' \<and> player_id p = uid' then p\<lparr>is_ready := v\<rparr> else p)
          (filter (\<lambda>p. room_id p = rid \<and> player_id p = uid) xs)" for xs :: "player_row list"
    by (induction xs) simp_all
  then show ?thesis by (simp add: entries_of_def send_def)
qed

lemma rooms_send_players [simp]:
  "rooms (send (Players_update_ready rid uid v) s) = rooms s"
  "rooms (send (Players_insert p) s) = rooms s"
  "rooms (send (Players_delete rid uid) s) = rooms s"
  "rooms (rejected rq s) = rooms s"
  by (simp_all add: send_def rejected_def)

text \<open>
  Rejoining when the lookup returns its data: a caller who has exactly one entry in the room
  (ready or not) gets \<open>true\<close>, and the only request sent is the update that sets the ready
  flag of that entry; no row is added and the entry stays the caller's only one.
\<close>

lemma joinRoom_existing_entry:
  assumes "user c = Some uid" and "fetchError b = None" and "lookupError b = None"
    and "filter (\<lambda>r. room_code r = code) (rooms s) = [r]"
    and "entries_of (room_ident r) uid s = [x]"
  shows "(let (ok, c', s') = joinRoom sch b code c s
          in ok \<and> s' = send (Players_update_ready (room_ident r) uid True) s
           \<and> journal s' = journal s @ [Players_update_ready (room_ident r) uid True]
           \<and> room_players s' =
                map (\<lambda>p. if room_id p = room_ident r \<and> player_id p = uid
                          then p\<lparr>is_ready := True\<rparr> else p) (room_players s)
           \<and> entries_of (room_ident r) uid s' = [x\<lparr>is_ready := True\<rparr>])"
proof -
  obtain ok c' s' where j: "joinRoom sch b code c s = (ok, c', s')"
    by (cases "joinRoom sch b code c s") auto
  from assms(5) have rx: "room_id x = room_ident r \<and> player_id x = uid"
  proof -
    have "x \<in> set (entries_of (room_ident r) uid s)" unfolding assms(5) by simp
    then show ?thesis by (simp add: entries_of_def)
  qed
  from joinRoom_cases [OF j] assms
  have s': "ok \<and> s' = send (Players_update_ready (room_ident r) uid True) s"
    by auto
  then have e: "entries_of (room_ident r) uid s' = [x\<lparr>is_ready := True\<rparr>]"
    using assms(5) rx by (simp add: entries_of_ready)
  from s' e show ?thesis unfolding j Let_def prod.case by (simp add: send_def)
qed

text \<open>
  C3. A second \<open>joinRoom\<close> by the same identity is claimed never to add a row. The lookup
  of the caller's entry discards its error: bob joins the lobby, turns the ready flag off,
  and joins again while that read fails. The code takes bob for a newcomer and requests an
  insert. If the store accepts it bob has two entries and the old one is still not ready;
  if the store refuses it the call fails with the store's message, again without the ready
  update.
\<close>

theorem joinRoom_failed_lookup_duplicates:
  "(let (ok1, c1, s1) = joinRoom demo_schema (demo_backend\<lparr>new_row_id := ''p2''\<rparr>) ''4FZYO8''
                           (signed_in ''bob'') lobby_store;
        (c2, s2) = toggleReady c1 s1;
        failing = demo_backend\<lparr>new_row_id := ''p9'', lookupError := Some ''timeout''\<rparr>;
        (ok3, c3, s3) = joinRoom demo_schema failing ''4FZYO8'' c2 s2;
        (ok4, c4, s4) = joinRoom demo_schema (failing\<lparr>joinError := Some ''duplicate key''\<rparr>)
                           ''4FZYO8'' c2 s2
    in ok1 \<and> map row_id (entries_of ''r1'' ''bob'' s2) = [''p2'']
     \<and> ok3 \<and> map row_id (entries_of ''r1'' ''bob'' s3) = [''p2'', ''p9'']
     \<and> map is_ready (entries_of ''r1'' ''bob'' s3) = [False, True]
     \<and> map player_id (room_players s3) = [''alice'', ''bob'', ''bob'']
     \<and> drop (length (journal s2)) (journal s3) =
          [Players_insert \<lparr>row_id = ''p9'', room_id = ''r1'', player_id = ''bob'', score = 0,
                           lives = 3, is_ready = True, joined_at = ''t0''\<rparr>]
     \<and> \<not> ok4 \<and> error c4 = Some ''duplicate key''
     \<and> map is_ready (entries_of ''r1'' ''bob'' s4) = [False])"
  by code_simp

section \<open>Capacity\<close>

lemma count_players_ready:
  "count_players rid (send (Players_update_ready a u v) s) = count_players rid s"
proof -
  have "((\<lambda>p. room_id p = rid) \<circ>
          (\<lambda>p. if room_id p = a \<and> player_id p = u then p\<lparr>is_ready := v\<rparr> else p)) =
        (\<lambda>p::player_row. room_id p = rid)"
    by (rule ext) simp
  then show ?thesis by (simp add: count_players_def send_def filter_map)
qed

lemma count_players_insert:
  "count_players rid (send (Players_insert p) s) =
     count_players rid s + (if room_id p = rid then 1 else 0)"
  by (simp add: count_players_def send_def)

lemma count_players_delete:
  "count_players rid (send (Players_delete a u) s) \<le> count_players rid s"
proof -
  have "length (filter (\<lambda>p. room_id p = rid) (filter Q xs)) \<le>
        length (filter (\<lambda>p. room_id p = rid) xs)" for Q and xs :: "player_row list"
    by (induction xs) simp_all
  then show ?thesis by (simp add: count_players_def send_def)
qed

lemma count_players_rejected: "count_players rid (rejected rq s) = count_players rid s"
  by (simp add: count_players_def rejected_def)

lemma capacity_pos: "0 \<le> max_players r \<Longrightarrow> 1 \<le> capacity r"
  by (simp add: capacity_def)

lemma same_ident:
  assumes "distinct (map room_ident rs)" and "x \<in> set rs" and "y \<in> set rs"
    and "room_ident x = room_ident y"
  shows "x = y"
  using assms by (meson distinct_map inj_on_eq_iff)

lemma joinRoom_store:
  assumes "joinRoom sch b code c s = (ok, c', s')"
  shows "s' = s
       \<or> (\<exists>uid (r::room). s' = send (Players_update_ready (room_ident r) uid True) s)
       \<or> (\<exists>uid (r::room). s' = rejected (Players_insert (join_row sch b (room_ident r) uid)) s)
       \<or> (\<exists>uid r. filter (\<lambda>r. room_code r = code) (rooms s) = [r]
              \<and> (countError b \<noteq> None \<or> count_players (room_ident r) s = 0
                   \<or> count_players (room_ident r) s < capacity r)
              \<and> s' = send (Players_insert (join_row sch b (room_ident r) uid)) s)"
  using joinRoom_cases [OF assms] by (elim disjE exE conjE) blast+

text \<open>
  When the count read returns the count, a \<open>joinRoom\<close> call keeps every roster within
  capacity, in a store whose rooms have distinct ids and non-negative \<open>max_players\<close>.
\<close>

lemma joinRoom_preserves:
  assumes d: "distinct (map room_ident (rooms s))"
    and nn: "\<forall>r\<in>set (rooms s). 0 \<le> max_players r"
    and wc: "within_capacity s"
    and counted: "countError b = None"
  shows "rooms (snd (snd (joinRoom sch b code c s))) = rooms s
       \<and> within_capacity (snd (snd (joinRoom sch b code c s)))"
proof -
  obtain ok c' s' where j: "joinRoom sch b code c s = (ok, c', s')"
    by (cases "joinRoom sch b code c s") auto
  from joinRoom_store [OF j] counted consider
      (same) "s' = s"
    | (ready) uid and r :: room where "s' = send (Players_update_ready (room_ident r) uid True) s"
    | (refused) uid and r :: room where
        "s' = rejected (Players_insert (join_row sch b (room_ident r) uid)) s"
    | (inserted) uid r where "filter (\<lambda>r. room_code r = code) (rooms s) = [r]"
        "count_players (room_ident r) s = 0 \<or> count_players (room_ident r) s < capacity r"
        "s' = send (Players_insert (join_row sch b (room_ident r) uid)) s"
    by auto
  then have "rooms s' = rooms s \<and> within_capacity s'"
  proof cases
    case same
    with wc show ?thesis by simp
  next
    case ready
    with wc show ?thesis by (simp add: within_capacity_def count_players_ready)
  next
    case refused
    with wc show ?thesis by (simp add: within_capacity_def count_players_rejected)
  next
    case inserted
    have rin: "r \<in> set (rooms s)"
    proof -
      have "r \<in> set (filter (\<lambda>r. room_code r = code) (rooms s))" unfolding inserted(1) by simp
      then show ?thesis by simp
    qed
    with nn have "1 \<le> capacity r" by (simp add: capacity_pos)
    with inserted(2) have lt: "count_players (room_ident r) s < capacity r" by auto
    have "count_players (room_ident x) s' \<le> capacity x" if x: "x \<in> set (rooms s)" for x
    proof (cases "room_ident x = room_ident r")
      case True
      with d x rin have "x = r" by (rule same_ident)
      with lt inserted(3) show ?thesis by (simp add: count_players_insert join_row_def)
    next
      case False
      with wc x inserted(3) show ?thesis
        by (simp add: count_players_insert join_row_def within_capacity_def)
    qed
    with inserted(3) show ?thesis by (simp add: within_capacity_def)
  qed
  with j show ?thesis by simp
qed

lemma leaveRoom_preserves:
  assumes wc: "within_capacity s"
  shows "rooms (snd (leaveRoom c s)) = rooms s \<and> within_capacity (snd (leaveRoom c s))"
proof (cases "user c")
  case None
  with wc show ?thesis by (simp add: leaveRoom_def)
next
  case (Some uid)
  show ?thesis
  proof (cases "room c")
    case None
    with Some wc show ?thesis by (simp add: leaveRoom_def)
  next
    case (Some r)
    have "count_players (room_ident x) (send (Players_delete (room_ident r) uid) s) \<le> capacity x"
      if "x \<in> set (rooms s)" for x
      using count_players_delete [of "room_ident x" "room_ident r" uid s] wc that
      by (auto simp: within_capacity_def)
    with Some \<open>user c = Some uid\<close> show ?thesis
      by (simp add: leaveRoom_def within_capacity_def)
  qed
qed

text \<open>
  Hence every sequence of \<open>joinRoom\<close> and \<open>leaveRoom\<close> calls in which every count read
  returns the count leaves every roster within capacity.
\<close>

lemma run_within_capacity:
  assumes "distinct (map room_ident (rooms s))"
    and "\<forall>r\<in>set (rooms s). 0 \<le> max_players r"
    and "within_capacity s"
    and "\<forall>e\<in>set es. join_or_leave (snd (snd e)) \<and> countError (fst (snd e)) = None"
  shows "rooms (run sch es s) = rooms s \<and> within_capacity (run sch es s)"
  using assms
proof (induction es arbitrary: s)
  case Nil
  then show ?case by simp
next
  case (Cons e es)
  obtain c b o' where e: "e = (c, b, o')" by (cases e) auto
  let ?s = "snd (exec sch b o' c s)"
  from Cons.prems(4) e have jl: "join_or_leave o'" and counted: "countError b = None"
    by simp_all
  have step: "rooms ?s = rooms s \<and> within_capacity ?s"
  proof (cases o')
    case (JoinRoom code)
    with joinRoom_preserves [OF Cons.prems(1-3) counted, of sch code c] show ?thesis by simp
  next
    case LeaveRoom
    with leaveRoom_preserves [OF Cons.prems(3), of c] show ?thesis by simp
  qed (use jl in simp_all)
  from Cons.prems(4)
  have rest: "\<forall>e\<in>set es. join_or_leave (snd (snd e)) \<and> countError (fst (snd e)) = None"
    by simp
  from step Cons.prems(1,2) have "distinct (map room_ident (rooms ?s))"
    and "\<forall>r\<in>set (rooms ?s). 0 \<le> max_players r" by simp_all
  from Cons.IH [OF this _ rest] step e show ?case by simp
qed

text \<open>
  With the count in hand, a newcomer to a room whose count has reached capacity gets
  \<open>Room is full\<close> and nothing is sent.
\<close>

lemma joinRoom_full:
  assumes j: "joinRoom sch b code c s = (ok, c', s')"
    and "user c = Some uid" and "fetchError b = None" and "countError b = None"
    and "filter (\<lambda>r. room_code r = code) (rooms s) = [r]"
    and "entries_of (room_ident r) uid s = []"
    and "capacity r \<le> count_players (room_ident r) s" and "0 \<le> max_players r"
  shows "\<not> ok \<and> error c' = Some ''Room is full'' \<and> s' = s"
proof -
  from assms(8) have "1 \<le> capacity r" by (rule capacity_pos)
  with assms(7) have "count_players (room_ident r) s \<noteq> 0" by simp
  with joinRoom_cases [OF j] assms(2-7) show ?thesis by auto
qed

text \<open>
  C4. The roster is claimed never to exceed the capacity, \<open>joinRoom\<close> inserting only below
  it. The count read discards its error and the test is \<open>count && count >= limit\<close>: when
  the read fails the count is \<open>null\<close>, the test is false, and the insert is sent whatever
  the size of the roster. Carol joins the full room for two while the count read fails and
  becomes its third entry.
\<close>

theorem joinRoom_failed_count_overfills:
  "(let failing = demo_backend\<lparr>new_row_id := ''p3'', countError := Some ''timeout''\<rparr>;
        (ok, c', s') = joinRoom demo_schema failing ''4FZYO8'' (signed_in ''carol'') duo_store;
        (ok0, c0, s0) = joinRoom demo_schema (demo_backend\<lparr>new_row_id := ''p3''\<rparr>) ''4FZYO8''
                           (signed_in ''carol'') duo_store
    in map capacity (rooms duo_store) = [2] \<and> count_players ''r1'' duo_store = 2
     \<and> ok \<and> error c' = None
     \<and> map player_id (room_players s') = [''alice'', ''bob'', ''carol'']
     \<and> count_players ''r1'' s' = 3 \<and> map capacity (rooms s') = [2]
     \<and> journal s' = [Players_insert \<lparr>row_id = ''p3'', room_id = ''r1'', player_id = ''carol'',
                                      score = 0, lives = 3, is_ready = True, joined_at = ''t0''\<rparr>]
     \<and> \<not> ok0 \<and> error c0 = Some ''Room is full'' \<and> s0 = duo_store)"
  by code_simp

end
